theory Spec2Isabelle
  imports Complex_Main
begin

section \<open>The popup state machine (class PopupStateManager)\<close>

text \<open>
  The four members of the static table \<open>PopupStateManager.STATES\<close>. The field
  \<open>state\<close> of the class holds one of these strings; the model keeps it a string, so
  that staying inside the table is a property of the transitions and not of a type.
\<close>

definition CLOSED :: string where "CLOSED = ''closed''"
definition OPENING :: string where "OPENING = ''opening''"
definition OPEN :: string where "OPEN = ''open''"
definition CLOSING :: string where "CLOSING = ''closing''"

definition STATES :: "string set" where
  "STATES = {CLOSED, OPENING, OPEN, CLOSING}"

text \<open>
  The two closures handed to \<open>setTimeout\<close>: the one scheduled by \<open>open\<close> (it completes
  the opening) and the one scheduled by \<open>close\<close> (it completes the closing). The field
  \<open>pendingTransition\<close> holds the timer that is still live, or \<open>null\<close>.
\<close>

datatype timer = CompleteOpen | CompleteClose

text \<open>
  The manager. \<open>classList\<close> is the class list of \<open>this.element\<close>. The two callbacks
  \<open>onStateChange\<close> and \<open>onPositionNeeded\<close> are code of the caller; the model records
  each call in a log (\<open>stateChanges\<close>: new state and previous state, \<open>None\<close> for
  \<open>null\<close>; \<open>positioned\<close>: the position asked for).
\<close>

record popup =
  state :: string
  classList :: "string set"
  pendingTransition :: "timer option"
  transitionDuration :: nat
  stateChanges :: "(string \<times> string option) list"
  positioned :: "string list"

text \<open>The constructor: \<open>cls\<close> is the class list the element comes with.\<close>

definition PopupStateManager :: "string set \<Rightarrow> nat \<Rightarrow> popup" where
  "PopupStateManager cls duration =
     \<lparr> state = CLOSED, classList = cls, pendingTransition = None,
       transitionDuration = (if duration = 0 then 150 else duration),
       stateChanges = [], positioned = [] \<rparr>"

definition getState :: "popup \<Rightarrow> string" where
  "getState p = state p"

definition isVisible :: "popup \<Rightarrow> bool" where
  "isVisible p = (state p = OPENING \<or> state p = OPEN)"

definition isInteractive :: "popup \<Rightarrow> bool" where
  "isInteractive p = (state p = OPEN)"

definition cancelPendingTransition :: "popup \<Rightarrow> popup" where
  "cancelPendingTransition p =
     (if pendingTransition p \<noteq> None then p\<lparr>pendingTransition := None\<rparr> else p)"

definition onStateChange :: "string \<Rightarrow> string option \<Rightarrow> popup \<Rightarrow> popup" where
  "onStateChange new prev p = p\<lparr>stateChanges := stateChanges p @ [(new, prev)]\<rparr>"

definition onPositionNeeded :: "string \<Rightarrow> popup \<Rightarrow> popup" where
  "onPositionNeeded position p = p\<lparr>positioned := positioned p @ [position]\<rparr>"

definition open_popup :: "string \<Rightarrow> popup \<Rightarrow> popup" where
  "open_popup position p0 =
     (let p = cancelPendingTransition p0;
          prevState = state p
      in if state p = OPEN then onPositionNeeded position p
         else
           let p1 = (if state p = CLOSING
                     then p\<lparr>classList := classList p - {''fading''}\<rparr> else p);
               p2 = onPositionNeeded position p1;
               p3 = p2\<lparr>state := OPENING\<rparr>;
               p4 = p3\<lparr>classList := insert ''active'' (classList p3)\<rparr>;
               p5 = p4\<lparr>classList := classList p4 - {''interactive''}\<rparr>;
               p6 = onStateChange (state p5) (Some prevState) p5
           in p6\<lparr>pendingTransition := Some CompleteOpen\<rparr>)"

definition close :: "popup \<Rightarrow> popup" where
  "close p0 =
     (let p = cancelPendingTransition p0
      in if state p = CLOSED \<or> state p = CLOSING then p
         else
           let prevState = state p;
               p1 = p\<lparr>classList := classList p - {''interactive''}\<rparr>;
               p2 = p1\<lparr>state := CLOSING\<rparr>;
               p3 = p2\<lparr>classList := insert ''fading'' (classList p2)\<rparr>;
               p4 = onStateChange (state p3) (Some prevState) p3
           in p4\<lparr>pendingTransition := Some CompleteClose\<rparr>)"

definition forceClose :: "popup \<Rightarrow> popup" where
  "forceClose p0 =
     (let p = cancelPendingTransition p0;
          p1 = p\<lparr>state := CLOSED\<rparr>;
          p2 = p1\<lparr>classList := classList p1 - {''active'', ''fading'', ''interactive''}\<rparr>
      in onStateChange (state p2) None p2)"

text \<open>The bodies of the two timer callbacks.\<close>

definition completeOpen :: "popup \<Rightarrow> popup" where
  "completeOpen p0 =
     (let p = p0\<lparr>pendingTransition := None\<rparr>
      in if state p = OPENING
         then let prev = state p;
                  p1 = p\<lparr>state := OPEN\<rparr>;
                  p2 = p1\<lparr>classList := insert ''interactive'' (classList p1)\<rparr>
              in onStateChange (state p2) (Some prev) p2
         else p)"

definition completeClose :: "popup \<Rightarrow> popup" where
  "completeClose p0 =
     (let p = p0\<lparr>pendingTransition := None\<rparr>
      in if state p = CLOSING
         then let prev = state p;
                  p1 = p\<lparr>state := CLOSED\<rparr>;
                  p2 = p1\<lparr>classList := classList p1 - {''active'', ''fading''}\<rparr>
              in onStateChange (state p2) (Some prev) p2
         else p)"

text \<open>
  The browser fires the live timer. Every method that schedules a timer clears the
  previous one first, so the live timer is the one in \<open>pendingTransition\<close>; with no
  timer live nothing runs.
\<close>

definition timeout :: "popup \<Rightarrow> popup" where
  "timeout p =
     (case pendingTransition p of
        None \<Rightarrow> p
      | Some CompleteOpen \<Rightarrow> completeOpen p
      | Some CompleteClose \<Rightarrow> completeClose p)"

text \<open>What can happen to a manager, and a run of such events from left to right.\<close>

datatype popup_event = Open string | Close | ForceClose | Timeout

fun popup_step :: "popup \<Rightarrow> popup_event \<Rightarrow> popup" where
  "popup_step p (Open position) = open_popup position p"
| "popup_step p Close = close p"
| "popup_step p ForceClose = forceClose p"
| "popup_step p Timeout = timeout p"

definition popup_run :: "popup \<Rightarrow> popup_event list \<Rightarrow> popup" where
  "popup_run p es = foldl popup_step p es"

section \<open>The camera rig (class CameraControls)\<close>

text \<open>
  The repository holds two copies of \<^verbatim>\<open>camera-controls.js\<close>: the earlier one under
  \<^verbatim>\<open>js/\<close> and the later one under \<^verbatim>\<open>src/js/\<close>, which adds zoom, pinch and click
  detection. A method that reads the same in both copies has one definition here; where
  the copies differ the definitions carry the suffixes \<open>_old\<close> (copy under
  \<^verbatim>\<open>js/\<close>) and \<open>_new\<close> (copy under \<^verbatim>\<open>src/js/\<close>).

  Numbers. A JavaScript number is an IEEE double; the model computes with the reals, so
  \<open>+\<close>, \<open>-\<close>, \<open>*\<close>, \<open>sin\<close>, \<open>cos\<close> and \<open>sqrt\<close> are exact here and rounding is
  not represented. \<open>Math.max\<close> and \<open>Math.min\<close> are \<open>max\<close> and \<open>min\<close>, comparisons
  are comparisons. Event coordinates and sensor readings are numbers (never NaN).
\<close>

type_synonym vec3 = "real \<times> real \<times> real"

text \<open>
  The three.js camera as far as this code touches it: its position, the point handed to
  the last \<open>camera.lookAt\<close> (\<open>None\<close> before the first call; \<open>lookAt\<close> of three.js
  turns the camera and leaves its position alone) and its field of view.
\<close>

record camera =
  position :: vec3
  lookTarget :: "vec3 option"
  fov :: real

record point =
  px :: real
  py :: real

text \<open>
  Events. Besides the coordinates a pointer event carries the answers of the two DOM
  queries the later copy makes while handling it (\<open>findInteractiveElementAtPoint\<close> at the
  event's coordinates, \<open>isInteractiveElement(event.target)\<close>) and the value of
  \<open>Date.now()\<close>; an element is named by a string.
\<close>

record pointer_event =
  clientX :: real
  clientY :: real
  elementAtPoint :: "string option"
  targetInteractive :: bool
  now :: real

record touch_event =
  touches :: "point list"
  changedTouches :: "point list"
  touchElementAtPoint :: "string option"
  touchTargetInteractive :: bool
  touchNow :: real

record orientation_event =
  alpha :: "real option"
  beta :: "real option"

record controls =
  camera :: camera
  enabled :: bool
  theta :: real
  phi :: real
  targetTheta :: real
  targetPhi :: real
  isDragging :: bool
  previousMouse :: point
  previousTouch :: point
  touchStartTime :: real
  isPinching :: bool
  previousPinchDistance :: real
  targetFov :: real
  gyroEnabled :: bool
  gyroCalibrated :: bool
  gyroAlphaOffset :: real
  gyroBetaOffset :: real
  cursor :: string
  mouseDownPos :: point
  mouseDownTime :: real
  pendingClick :: "string option"
  touchStartPos :: point
  pendingTap :: "string option"
  clicked :: "string list"

text \<open>
  The fields the constructor sets once and no method assigns again are constants.
  \<open>mouseDownPos\<close> and \<open>touchStartPos\<close> are undefined until the first press; they are
  read only while \<open>pendingClick\<close> or \<open>pendingTap\<close> is set, which happens after they are
  assigned. \<open>clicked\<close> logs the calls of \<open>click()\<close> on an element. The fields of the later
  copy are carried along unchanged by the methods of the earlier one.
\<close>

definition minPhi :: real where "minPhi = pi / 6"
definition maxPhi :: real where "maxPhi = pi * 5 / 6"
definition dampingFactor :: real where "dampingFactor = 0.08"
definition rotationSpeed :: real where "rotationSpeed = 0.003"
definition minFov :: real where "minFov = 30"
definition maxFov :: real where "maxFov = 90"
definition zoomSpeed :: real where "zoomSpeed = 0.5"

text \<open>\<open>THREE.MathUtils.degToRad\<close> of the three.js library.\<close>

definition degToRad :: "real \<Rightarrow> real" where
  "degToRad degrees = degrees * (pi / 180)"

definition updateCameraRotation :: "controls \<Rightarrow> controls" where
  "updateCameraRotation c =
     (let lookDistance = 100;
          x = lookDistance * sin (phi c) * sin (theta c);
          y = lookDistance * cos (phi c);
          z = - lookDistance * sin (phi c) * cos (theta c)
      in c\<lparr>camera := (camera c)\<lparr>lookTarget := Some (x, y, z)\<rparr>\<rparr>)"

text \<open>The constructor (the gyroscope button of mobile devices is page furniture).\<close>

definition CameraControls :: "camera \<Rightarrow> controls" where
  "CameraControls cam =
     updateCameraRotation
       \<lparr> camera = cam, enabled = False, theta = 0, phi = pi / 2,
         targetTheta = 0, targetPhi = pi / 2, isDragging = False,
         previousMouse = \<lparr>px = 0, py = 0\<rparr>, previousTouch = \<lparr>px = 0, py = 0\<rparr>,
         touchStartTime = 0, isPinching = False, previousPinchDistance = 0,
         targetFov = 60, gyroEnabled = False, gyroCalibrated = False,
         gyroAlphaOffset = 0, gyroBetaOffset = 0, cursor = ''grab'',
         mouseDownPos = \<lparr>px = 0, py = 0\<rparr>, mouseDownTime = 0, pendingClick = None,
         touchStartPos = \<lparr>px = 0, py = 0\<rparr>, pendingTap = None, clicked = [] \<rparr>"

subsection \<open>Mouse\<close>

definition onMouseDown_old :: "pointer_event \<Rightarrow> controls \<Rightarrow> controls" where
  "onMouseDown_old event c =
     (if \<not> enabled c then c
      else c\<lparr>isDragging := True,
             previousMouse := \<lparr>px = clientX event, py = clientY event\<rparr>,
             cursor := ''grabbing''\<rparr>)"

definition onMouseDown_new :: "pointer_event \<Rightarrow> controls \<Rightarrow> controls" where
  "onMouseDown_new event c =
     (if \<not> enabled c then c
      else
        let c1 = c\<lparr>mouseDownPos := \<lparr>px = clientX event, py = clientY event\<rparr>,
                   mouseDownTime := now event\<rparr>
        in case elementAtPoint event of
             Some interactiveEl \<Rightarrow> c1\<lparr>pendingClick := Some interactiveEl\<rparr>
           | None \<Rightarrow>
               if targetInteractive event then c1
               else c1\<lparr>isDragging := True,
                       previousMouse := \<lparr>px = clientX event, py = clientY event\<rparr>,
                       cursor := ''grabbing''\<rparr>)"

text \<open>\<open>onMouseMove\<close> reads the same in both copies.\<close>

definition onMouseMove :: "pointer_event \<Rightarrow> controls \<Rightarrow> controls" where
  "onMouseMove event c =
     (if \<not> enabled c \<or> \<not> isDragging c then c
      else
        let deltaX = clientX event - px (previousMouse c);
            deltaY = clientY event - py (previousMouse c);
            c1 = c\<lparr>targetTheta := targetTheta c - deltaX * rotationSpeed\<rparr>;
            c2 = c1\<lparr>targetPhi := targetPhi c1 - deltaY * rotationSpeed\<rparr>;
            c3 = c2\<lparr>targetPhi := max minPhi (min maxPhi (targetPhi c2))\<rparr>
        in c3\<lparr>previousMouse := \<lparr>px = clientX event, py = clientY event\<rparr>\<rparr>)"

definition onMouseUp_old :: "controls \<Rightarrow> controls" where
  "onMouseUp_old c = c\<lparr>isDragging := False, cursor := ''grab''\<rparr>"

text \<open>
  In the later copy \<open>mouseup\<close> passes its event and \<open>mouseleave\<close> passes none.
\<close>

definition onMouseUp_new :: "pointer_event option \<Rightarrow> controls \<Rightarrow> controls" where
  "onMouseUp_new ev c =
     (let c1 =
        (case (pendingClick c, ev) of
           (Some el, Some event) \<Rightarrow>
             let dx = clientX event - px (mouseDownPos c);
                 dy = clientY event - py (mouseDownPos c);
                 distance = sqrt (dx * dx + dy * dy);
                 duration = now event - mouseDownTime c;
                 c' = (if distance < 10 \<and> duration < 300
                       then c\<lparr>clicked := clicked c @ [el]\<rparr> else c)
             in c'\<lparr>pendingClick := None\<rparr>
         | _ \<Rightarrow> c)
      in c1\<lparr>isDragging := False, cursor := ''grab''\<rparr>)"

definition onMouseWheel :: "real \<Rightarrow> controls \<Rightarrow> controls" where
  "onMouseWheel deltaY c =
     (if \<not> enabled c then c
      else
        let c1 = c\<lparr>targetFov := targetFov c + deltaY * 0.05\<rparr>
        in c1\<lparr>targetFov := max minFov (min maxFov (targetFov c1))\<rparr>)"

subsection \<open>Touch\<close>

definition onTouchStart_old :: "touch_event \<Rightarrow> controls \<Rightarrow> controls" where
  "onTouchStart_old event c =
     (if \<not> enabled c \<or> gyroEnabled c then c
      else case touches event of
             [t] \<Rightarrow> c\<lparr>touchStartTime := touchNow event,
                       previousTouch := \<lparr>px = px t, py = py t\<rparr>\<rparr>
           | _ \<Rightarrow> c)"

definition getPinchDistance :: "point \<Rightarrow> point \<Rightarrow> real" where
  "getPinchDistance t0 t1 =
     (let dx = px t0 - px t1; dy = py t0 - py t1 in sqrt (dx * dx + dy * dy))"

text \<open>
  The later \<open>onTouchStart\<close>: the part that runs for a single finger (it may return early
  with a pending tap), then the rest.
\<close>

definition onTouchStart_rest :: "touch_event \<Rightarrow> controls \<Rightarrow> controls" where
  "onTouchStart_rest event c =
     (if touchTargetInteractive event then c
      else case touches event of
             [t0, t1] \<Rightarrow> c\<lparr>isPinching := True, pendingTap := None,
                            previousPinchDistance := getPinchDistance t0 t1\<rparr>
           | [t] \<Rightarrow> if \<not> gyroEnabled c
                    then c\<lparr>previousTouch := \<lparr>px = px t, py = py t\<rparr>\<rparr> else c
           | _ \<Rightarrow> c)"

definition onTouchStart_new :: "touch_event \<Rightarrow> controls \<Rightarrow> controls" where
  "onTouchStart_new event c =
     (if \<not> enabled c then c
      else case touches event of
             [t] \<Rightarrow>
               (let c1 = c\<lparr>touchStartPos := \<lparr>px = px t, py = py t\<rparr>,
                           touchStartTime := touchNow event\<rparr>
                in case touchElementAtPoint event of
                     Some interactiveEl \<Rightarrow> c1\<lparr>pendingTap := Some interactiveEl\<rparr>
                   | None \<Rightarrow> onTouchStart_rest event c1)
           | _ \<Rightarrow> onTouchStart_rest event c)"

text \<open>The single-finger drag, the same statements in both copies.\<close>

definition touchDrag :: "point \<Rightarrow> controls \<Rightarrow> controls" where
  "touchDrag touch c =
     (let deltaX = px touch - px (previousTouch c);
          deltaY = py touch - py (previousTouch c);
          c1 = c\<lparr>targetTheta := targetTheta c - deltaX * rotationSpeed * 1.5\<rparr>;
          c2 = c1\<lparr>targetPhi := targetPhi c1 - deltaY * rotationSpeed * 1.5\<rparr>;
          c3 = c2\<lparr>targetPhi := max minPhi (min maxPhi (targetPhi c2))\<rparr>
      in c3\<lparr>previousTouch := \<lparr>px = px touch, py = py touch\<rparr>\<rparr>)"

definition onTouchMove_old :: "touch_event \<Rightarrow> controls \<Rightarrow> controls" where
  "onTouchMove_old event c =
     (if \<not> enabled c \<or> gyroEnabled c then c
      else case touches event of
             [touch] \<Rightarrow> touchDrag touch c
           | _ \<Rightarrow> c)"

definition pinchZoom :: "point \<Rightarrow> point \<Rightarrow> controls \<Rightarrow> controls" where
  "pinchZoom t0 t1 c =
     (let currentDistance = getPinchDistance t0 t1;
          delta = currentDistance - previousPinchDistance c;
          c1 = c\<lparr>targetFov := targetFov c - delta * zoomSpeed * 0.1\<rparr>;
          c2 = c1\<lparr>targetFov := max minFov (min maxFov (targetFov c1))\<rparr>
      in c2\<lparr>previousPinchDistance := currentDistance\<rparr>)"

definition onTouchMove_new :: "touch_event \<Rightarrow> controls \<Rightarrow> controls" where
  "onTouchMove_new event c =
     (if \<not> enabled c then c
      else case touches event of
             [t0, t1] \<Rightarrow> if isPinching c then pinchZoom t0 t1 c else c
           | [touch] \<Rightarrow> if gyroEnabled c then c else touchDrag touch c
           | _ \<Rightarrow> c)"

definition onTouchEnd_old :: "controls \<Rightarrow> controls" where
  "onTouchEnd_old c = c"

definition onTouchEnd_new :: "touch_event option \<Rightarrow> controls \<Rightarrow> controls" where
  "onTouchEnd_new ev c =
     (let c1 =
        (case (pendingTap c, ev) of
           (Some el, Some event) \<Rightarrow>
             (case changedTouches event of
                [] \<Rightarrow> c
              | touch # _ \<Rightarrow>
                  let dx = px touch - px (touchStartPos c);
                      dy = py touch - py (touchStartPos c);
                      distance = sqrt (dx * dx + dy * dy);
                      duration = touchNow event - touchStartTime c;
                      c' = (if distance < 15 \<and> duration < 400
                            then c\<lparr>clicked := clicked c @ [el]\<rparr> else c)
                  in c'\<lparr>pendingTap := None\<rparr>)
         | _ \<Rightarrow> c)
      in case ev of
           None \<Rightarrow> c1\<lparr>isPinching := False\<rparr>
         | Some event \<Rightarrow>
             if length (touches event) < 2 then c1\<lparr>isPinching := False\<rparr> else c1)"

subsection \<open>Keyboard\<close>

definition onKeyDown :: "string \<Rightarrow> controls \<Rightarrow> controls" where
  "onKeyDown key c =
     (if \<not> enabled c then c
      else
        let rotateAmount = 0.1
        in if key = ''ArrowLeft'' \<or> key = ''a''
           then c\<lparr>targetTheta := targetTheta c + rotateAmount\<rparr>
           else if key = ''ArrowRight'' \<or> key = ''d''
           then c\<lparr>targetTheta := targetTheta c - rotateAmount\<rparr>
           else if key = ''ArrowUp'' \<or> key = ''w''
           then c\<lparr>targetPhi := max minPhi (targetPhi c - rotateAmount)\<rparr>
           else if key = ''ArrowDown'' \<or> key = ''s''
           then c\<lparr>targetPhi := min maxPhi (targetPhi c + rotateAmount)\<rparr>
           else c)"

subsection \<open>Gyroscope\<close>

definition enableGyroscope :: "controls \<Rightarrow> controls" where
  "enableGyroscope c = c\<lparr>gyroEnabled := True\<rparr>"

text \<open>The click handler that \<open>enableGyroscope\<close> installs on the button.\<close>

definition toggleGyroscope :: "controls \<Rightarrow> controls" where
  "toggleGyroscope c = c\<lparr>gyroEnabled := \<not> gyroEnabled c\<rparr>"

definition calibrate :: "real \<Rightarrow> real \<Rightarrow> controls \<Rightarrow> controls" where
  "calibrate a b c =
     (if \<not> gyroCalibrated c
      then c\<lparr>gyroAlphaOffset := a, gyroBetaOffset := b, gyroCalibrated := True\<rparr>
      else c)"

definition handleOrientation_old :: "orientation_event \<Rightarrow> controls \<Rightarrow> controls" where
  "handleOrientation_old event c =
     (if \<not> enabled c \<or> \<not> gyroEnabled c then c
      else case (alpha event, beta event) of
             (Some a, Some b) \<Rightarrow>
               let c1 = calibrate a b c;
                   alphaRad = degToRad (a - gyroAlphaOffset c1);
                   c2 = c1\<lparr>targetTheta := - alphaRad\<rparr>;
                   neutralBeta = 50;
                   betaDelta = b - neutralBeta;
                   betaRad = degToRad betaDelta;
                   c3 = c2\<lparr>targetPhi := (pi / 2) + betaRad * 0.5\<rparr>
               in c3\<lparr>targetPhi := max minPhi (min maxPhi (targetPhi c3))\<rparr>
           | _ \<Rightarrow> c)"

definition handleOrientation_new :: "orientation_event \<Rightarrow> controls \<Rightarrow> controls" where
  "handleOrientation_new event c =
     (if \<not> enabled c \<or> \<not> gyroEnabled c then c
      else case (alpha event, beta event) of
             (Some a, Some b) \<Rightarrow>
               let c1 = calibrate a b c;
                   alphaRad = degToRad (a - gyroAlphaOffset c1);
                   c2 = c1\<lparr>targetTheta := alphaRad\<rparr>;
                   neutralBeta = 50;
                   betaDelta = b - neutralBeta;
                   betaRad = degToRad betaDelta;
                   c3 = c2\<lparr>targetPhi := (pi / 2) - betaRad * 0.5\<rparr>
               in c3\<lparr>targetPhi := max minPhi (min maxPhi (targetPhi c3))\<rparr>
           | _ \<Rightarrow> c)"

subsection \<open>The update loop and the public methods\<close>

definition smooth :: "controls \<Rightarrow> controls" where
  "smooth c =
     (let c1 = c\<lparr>theta := theta c + (targetTheta c - theta c) * dampingFactor\<rparr>
      in c1\<lparr>phi := phi c1 + (targetPhi c1 - phi c1) * dampingFactor\<rparr>)"

definition update_old :: "controls \<Rightarrow> controls" where
  "update_old c = (if \<not> enabled c then c else updateCameraRotation (smooth c))"

definition update_new :: "controls \<Rightarrow> controls" where
  "update_new c =
     (if \<not> enabled c then c
      else
        let c1 = smooth c;
            currentFov = fov (camera c1);
            c2 = (if \<bar>currentFov - targetFov c1\<bar> > 0.1
                  then c1\<lparr>camera := (camera c1)
                         \<lparr>fov := fov (camera c1) + (targetFov c1 - currentFov) * dampingFactor\<rparr>\<rparr>
                  else c1)
        in updateCameraRotation c2)"

text \<open>
  \<open>lookAt(theta, phi, instant = false)\<close>. The second argument may be left out
  (\<open>None\<close>); \<open>phi || Math.PI / 2\<close> takes the right operand when \<open>phi\<close> is undefined
  or the number zero.
\<close>

definition lookAt :: "real \<Rightarrow> real option \<Rightarrow> bool \<Rightarrow> controls \<Rightarrow> controls" where
  "lookAt th ph instant c =
     (let c1 = c\<lparr>targetTheta := th\<rparr>;
          c2 = c1\<lparr>targetPhi := (case ph of None \<Rightarrow> pi / 2
                                  | Some v \<Rightarrow> if v = 0 then pi / 2 else v)\<rparr>
      in if instant
         then updateCameraRotation (c2\<lparr>theta := targetTheta c2, phi := targetPhi c2\<rparr>)
         else c2)"

definition lookAtFront :: "bool \<Rightarrow> controls \<Rightarrow> controls" where
  "lookAtFront instant c = lookAt 0 (Some (pi / 2)) instant c"

definition lookAtLeft :: "bool \<Rightarrow> controls \<Rightarrow> controls" where
  "lookAtLeft instant c = lookAt (- pi / 3) (Some (pi / 2)) instant c"

definition lookAtRight :: "bool \<Rightarrow> controls \<Rightarrow> controls" where
  "lookAtRight instant c = lookAt (pi / 3) (Some (pi / 2)) instant c"

definition lookAtBack :: "bool \<Rightarrow> controls \<Rightarrow> controls" where
  "lookAtBack instant c = lookAt pi (Some (pi / 2)) instant c"

text \<open>\<open>lookAtSkillPopup\<close> exists in the later copy only.\<close>

definition lookAtSkillPopup :: "string \<Rightarrow> controls \<Rightarrow> controls" where
  "lookAtSkillPopup pos c =
     (let baseTheta = - pi / 3;
          thetaOffset = (if pos = ''top-left'' then - 0.35
                         else if pos = ''top-right'' then 0.35
                         else 0);
          phiOffset = (if pos = ''top-left'' then - 0.15
                       else if pos = ''top-right'' then - 0.15
                       else if pos = ''bottom'' then 0.15
                       else 0);
          c1 = c\<lparr>targetTheta := baseTheta + thetaOffset\<rparr>;
          c2 = c1\<lparr>targetPhi := (pi / 2) + phiOffset\<rparr>
      in c2\<lparr>targetPhi := max minPhi (min maxPhi (targetPhi c2))\<rparr>)"

subsection \<open>Everything that can happen to the controls\<close>

text \<open>
  One constructor for each listener and public method, and \<open>SetEnabled\<close> for the
  assignment to \<open>controls.enabled\<close> that ends the entry animation of the scene. The
  earlier copy has no wheel listener and no \<open>lookAtSkillPopup\<close> (the scene calls it only
  when it exists), so these two leave its state as it is.
\<close>

datatype control_op =
    MouseDown pointer_event
  | MouseMove pointer_event
  | MouseUp "pointer_event option"
  | MouseWheel real
  | TouchStart touch_event
  | TouchMove touch_event
  | TouchEnd "touch_event option"
  | KeyDown string
  | EnableGyroscope
  | ToggleGyroscope
  | Orientation orientation_event
  | Update
  | LookAt real "real option" bool
  | LookAtFront bool
  | LookAtLeft bool
  | LookAtRight bool
  | LookAtBack bool
  | LookAtSkillPopup string
  | SetEnabled bool

fun step_old :: "controls \<Rightarrow> control_op \<Rightarrow> controls" where
  "step_old c (MouseDown e) = onMouseDown_old e c"
| "step_old c (MouseMove e) = onMouseMove e c"
| "step_old c (MouseUp e) = onMouseUp_old c"
| "step_old c (MouseWheel d) = c"
| "step_old c (TouchStart e) = onTouchStart_old e c"
| "step_old c (TouchMove e) = onTouchMove_old e c"
| "step_old c (TouchEnd e) = onTouchEnd_old c"
| "step_old c (KeyDown k) = onKeyDown k c"
| "step_old c EnableGyroscope = enableGyroscope c"
| "step_old c ToggleGyroscope = toggleGyroscope c"
| "step_old c (Orientation e) = handleOrientation_old e c"
| "step_old c Update = update_old c"
| "step_old c (LookAt th ph i) = lookAt th ph i c"
| "step_old c (LookAtFront i) = lookAtFront i c"
| "step_old c (LookAtLeft i) = lookAtLeft i c"
| "step_old c (LookAtRight i) = lookAtRight i c"
| "step_old c (LookAtBack i) = lookAtBack i c"
| "step_old c (LookAtSkillPopup p) = c"
| "step_old c (SetEnabled b) = c\<lparr>enabled := b\<rparr>"

fun step_new :: "controls \<Rightarrow> control_op \<Rightarrow> controls" where
  "step_new c (MouseDown e) = onMouseDown_new e c"
| "step_new c (MouseMove e) = onMouseMove e c"
| "step_new c (MouseUp e) = onMouseUp_new e c"
| "step_new c (MouseWheel d) = onMouseWheel d c"
| "step_new c (TouchStart e) = onTouchStart_new e c"
| "step_new c (TouchMove e) = onTouchMove_new e c"
| "step_new c (TouchEnd e) = onTouchEnd_new e c"
| "step_new c (KeyDown k) = onKeyDown k c"
| "step_new c EnableGyroscope = enableGyroscope c"
| "step_new c ToggleGyroscope = toggleGyroscope c"
| "step_new c (Orientation e) = handleOrientation_new e c"
| "step_new c Update = update_new c"
| "step_new c (LookAt th ph i) = lookAt th ph i c"
| "step_new c (LookAtFront i) = lookAtFront i c"
| "step_new c (LookAtLeft i) = lookAtLeft i c"
| "step_new c (LookAtRight i) = lookAtRight i c"
| "step_new c (LookAtBack i) = lookAtBack i c"
| "step_new c (LookAtSkillPopup p) = lookAtSkillPopup p c"
| "step_new c (SetEnabled b) = c\<lparr>enabled := b\<rparr>"

section \<open>The scene and the page (PortfolioScene, initPortfolio)\<close>

text \<open>\<open>PortfolioScene.createCamera\<close>: a fresh camera with a field of view of 60, put at the origin.\<close>

definition createCamera :: camera where
  "createCamera = \<lparr> position = (0, 0, 0), lookTarget = None, fov = 60 \<rparr>"

text \<open>\<open>PortfolioScene.createControls\<close> hands that camera to the controls.\<close>

definition createControls :: controls where
  "createControls = CameraControls createCamera"




section \<open>Notions used to state the properties\<close>

text \<open>The pitch target lies in the band between \<open>minPhi\<close> and \<open>maxPhi\<close>.\<close>

definition phiInBand :: "controls \<Rightarrow> bool" where
  "phiInBand c = (minPhi \<le> targetPhi c \<and> targetPhi c \<le> maxPhi)"






text \<open>
  Runs of arbitrary operations through either copy, and the statement that the camera
  looks at the point given by the current angles.
\<close>

definition controls_run_old :: "controls \<Rightarrow> control_op list \<Rightarrow> controls" where
  "controls_run_old c ops = foldl step_old c ops"

definition controls_run_new :: "controls \<Rightarrow> control_op list \<Rightarrow> controls" where
  "controls_run_new c ops = foldl step_new c ops"

definition aimed :: "controls \<Rightarrow> bool" where
  "aimed c =
     (lookTarget (camera c)
        = Some (100 * sin (phi c) * sin (theta c), 100 * cos (phi c),
                - 100 * sin (phi c) * cos (theta c)))"

section \<open>Properties of the popup state machine\<close>

lemmas popup_defs =
  open_popup_def close_def forceClose_def completeOpen_def completeClose_def timeout_def
  cancelPendingTransition_def onStateChange_def onPositionNeeded_def

lemma STATES_distinct:
  "CLOSED \<noteq> OPENING" "CLOSED \<noteq> OPEN" "CLOSED \<noteq> CLOSING"
  "OPENING \<noteq> OPEN" "OPENING \<noteq> CLOSING" "OPEN \<noteq> CLOSING"
  by (simp_all add: CLOSED_def OPENING_def OPEN_def CLOSING_def)

lemma state_open_popup:
  "state (open_popup pos p) = (if state p = OPEN then OPEN else OPENING)"
  by (simp add: popup_defs Let_def)

lemma state_close:
  "state (close p) = (if state p = CLOSED \<or> state p = CLOSING then state p else CLOSING)"
  by (simp add: popup_defs Let_def)

lemma state_forceClose: "state (forceClose p) = CLOSED"
  by (simp add: popup_defs Let_def)

lemma state_timeout:
  "state (timeout p) =
     (if pendingTransition p = Some CompleteOpen \<and> state p = OPENING then OPEN
      else if pendingTransition p = Some CompleteClose \<and> state p = CLOSING then CLOSED
      else state p)"
  by (simp add: popup_defs Let_def split: option.splits timer.splits)

lemma popup_step_STATES: "state p \<in> STATES \<Longrightarrow> state (popup_step p e) \<in> STATES"
  by (cases e)
     (auto simp: STATES_def state_open_popup state_close state_forceClose state_timeout)

lemma popup_run_STATES: "state p \<in> STATES \<Longrightarrow> state (popup_run p es) \<in> STATES"
  unfolding popup_run_def
  by (induction es arbitrary: p) (simp_all add: popup_step_STATES)

lemma close_from_visible:
  assumes "state q = OPENING \<or> state q = OPEN"
  shows "state (close q) = CLOSING"
    and "pendingTransition (close q) = Some CompleteClose"
    and "classList (close q) = insert ''fading'' (classList q - {''interactive''})"
  using assms
  by (auto simp: close_def cancelPendingTransition_def onStateChange_def Let_def
      STATES_distinct STATES_distinct [symmetric])

lemma timeout_completes_close:
  assumes "state r = CLOSING" and "pendingTransition r = Some CompleteClose"
  shows "state (timeout r) = CLOSED"
    and "pendingTransition (timeout r) = None"
    and "classList (timeout r) = classList r - {''active'', ''fading''}"
  using assms
  by (simp_all add: timeout_def completeClose_def onStateChange_def Let_def)

lemma timeout_after_open:
  "state (timeout (open_popup pos p)) = OPEN"
  by (simp add: state_timeout state_open_popup)
     (simp add: open_popup_def cancelPendingTransition_def onStateChange_def
        onPositionNeeded_def Let_def)

text \<open>
  Claim C1. Visibility and interactivity are decided by the state alone: \<open>isVisible\<close>
  holds exactly in the states OPENING and OPEN, \<open>isInteractive\<close> exactly in the state
  OPEN, and so an interactive popup is always a visible one.
\<close>

theorem popup_visibility_gating:
  "(isVisible p \<longleftrightarrow> state p \<in> {OPENING, OPEN})
   \<and> (isInteractive p \<longleftrightarrow> state p = OPEN)
   \<and> (isInteractive p \<longrightarrow> isVisible p)"
  by (auto simp: isVisible_def isInteractive_def)

theorem popup_visibility_gating_witness:
  "isInteractive (timeout (open_popup ''center'' (PopupStateManager {} 150)))
   \<and> isVisible (timeout (open_popup ''center'' (PopupStateManager {} 150)))
   \<and> isVisible (open_popup ''center'' (PopupStateManager {} 150))
   \<and> \<not> isInteractive (open_popup ''center'' (PopupStateManager {} 150))
   \<and> \<not> isVisible (PopupStateManager {} 150)"
proof -
  have i: "isInteractive (timeout (open_popup ''center'' (PopupStateManager {} 150)))"
    by (simp add: isInteractive_def state_timeout state_open_popup popup_defs
        PopupStateManager_def STATES_distinct Let_def)
  have o: "state (open_popup ''center'' (PopupStateManager {} 150)) = OPENING"
    by (simp add: state_open_popup PopupStateManager_def STATES_distinct)
  have c: "state (PopupStateManager {} 150) = CLOSED"
    by (simp add: PopupStateManager_def)
  from i popup_visibility_gating
    [of "timeout (open_popup ''center'' (PopupStateManager {} 150))"]
  have v: "isVisible (timeout (open_popup ''center'' (PopupStateManager {} 150)))"
    by blast
  from o popup_visibility_gating [of "open_popup ''center'' (PopupStateManager {} 150)"]
  have v2: "isVisible (open_popup ''center'' (PopupStateManager {} 150))"
    and n2: "\<not> isInteractive (open_popup ''center'' (PopupStateManager {} 150))"
    by (simp_all add: STATES_distinct)
  from c popup_visibility_gating [of "PopupStateManager {} 150"]
  have n3: "\<not> isVisible (PopupStateManager {} 150)"
    by (simp add: STATES_distinct)
  from i v v2 n2 n3 show ?thesis by blast
qed

text \<open>
  Claim C2. From any state of the manager, \<open>open(position)\<close> followed by \<open>close()\<close>
  leaves the closing timer pending, and once that timer fires the machine is in the
  state CLOSED and the element carries none of the classes \<open>active\<close>, \<open>fading\<close>
  and \<open>interactive\<close>; no timer is left. The same holds when the opening timer has
  fired between the two calls.
\<close>

theorem open_close_returns_to_closed:
  "pendingTransition (close (open_popup pos p)) = Some CompleteClose
   \<and> state (timeout (close (open_popup pos p))) = CLOSED
   \<and> ''active'' \<notin> classList (timeout (close (open_popup pos p)))
   \<and> ''fading'' \<notin> classList (timeout (close (open_popup pos p)))
   \<and> ''interactive'' \<notin> classList (timeout (close (open_popup pos p)))
   \<and> pendingTransition (timeout (close (open_popup pos p))) = None
   \<and> pendingTransition (close (timeout (open_popup pos p))) = Some CompleteClose
   \<and> state (timeout (close (timeout (open_popup pos p)))) = CLOSED
   \<and> ''active'' \<notin> classList (timeout (close (timeout (open_popup pos p))))
   \<and> ''fading'' \<notin> classList (timeout (close (timeout (open_popup pos p))))
   \<and> ''interactive'' \<notin> classList (timeout (close (timeout (open_popup pos p))))"
proof -
  let ?q = "open_popup pos p"
  have q: "state ?q = OPENING \<or> state ?q = OPEN"
    by (simp add: state_open_popup)
  note c = close_from_visible [OF q]
  note t = timeout_completes_close [OF c(1) c(2)]
  have q': "state (timeout ?q) = OPENING \<or> state (timeout ?q) = OPEN"
    by (simp add: timeout_after_open)
  note c' = close_from_visible [OF q']
  note t' = timeout_completes_close [OF c'(1) c'(2)]
  show ?thesis
    by (simp add: c(2) t c(3) c'(2) t' c'(3))
qed

text \<open>
  Claim C3. The machine never leaves its table of four states: after any sequence of
  \<open>open\<close>, \<open>close\<close>, \<open>forceClose\<close> and timer callbacks run on a freshly constructed
  manager the state is one of CLOSED, OPENING, OPEN, CLOSING. The four are distinct, and
  each of them is reached by some sequence.
\<close>

theorem popup_states_exactly_four:
  "state (popup_run (PopupStateManager cls duration) es) \<in> {CLOSED, OPENING, OPEN, CLOSING}
   \<and> distinct [CLOSED, OPENING, OPEN, CLOSING]
   \<and> state (popup_run (PopupStateManager cls duration) []) = CLOSED
   \<and> state (popup_run (PopupStateManager cls duration) [Open pos]) = OPENING
   \<and> state (popup_run (PopupStateManager cls duration) [Open pos, Timeout]) = OPEN
   \<and> state (popup_run (PopupStateManager cls duration) [Open pos, Close]) = CLOSING"
proof -
  have "state (PopupStateManager cls duration) \<in> STATES"
    by (simp add: PopupStateManager_def STATES_def)
  then have "state (popup_run (PopupStateManager cls duration) es) \<in> STATES"
    by (rule popup_run_STATES)
  moreover have "distinct [CLOSED, OPENING, OPEN, CLOSING]"
    by (simp add: STATES_distinct)
  moreover have "state (popup_run (PopupStateManager cls duration) []) = CLOSED"
    by (simp add: popup_run_def PopupStateManager_def)
  moreover have "state (popup_run (PopupStateManager cls duration) [Open pos]) = OPENING"
    by (simp add: popup_run_def state_open_popup PopupStateManager_def STATES_distinct)
  moreover have
    "state (popup_run (PopupStateManager cls duration) [Open pos, Timeout]) = OPEN"
    by (simp add: popup_run_def popup_defs Let_def PopupStateManager_def STATES_distinct)
  moreover have
    "state (popup_run (PopupStateManager cls duration) [Open pos, Close]) = CLOSING"
    by (simp add: popup_run_def popup_defs Let_def PopupStateManager_def STATES_distinct
        STATES_distinct [symmetric])
  ultimately show ?thesis by (simp add: STATES_def)
qed

section \<open>Properties of the camera rig\<close>

subsection \<open>Auxiliary facts\<close>

lemma minPhi_le_maxPhi: "minPhi \<le> maxPhi"
  using pi_ge_zero by (simp add: minPhi_def maxPhi_def)

lemma clamp_in_band: "minPhi \<le> max minPhi (min maxPhi v) \<and> max minPhi (min maxPhi v) \<le> maxPhi"
  using minPhi_le_maxPhi by auto

lemma targetPhi_onMouseMove:
  "targetPhi (onMouseMove e c) =
     (if enabled c \<and> isDragging c
      then max minPhi (min maxPhi (targetPhi c - (clientY e - py (previousMouse c)) * rotationSpeed))
      else targetPhi c)"
  by (simp add: onMouseMove_def Let_def)

lemma targetTheta_onMouseMove:
  "targetTheta (onMouseMove e c) =
     (if enabled c \<and> isDragging c
      then targetTheta c - (clientX e - px (previousMouse c)) * rotationSpeed
      else targetTheta c)"
  by (simp add: onMouseMove_def Let_def)

lemma phiInBand_clamp [simp]: "phiInBand (c\<lparr>targetPhi := max minPhi (min maxPhi v)\<rparr>)"
  using clamp_in_band [of v] by (simp add: phiInBand_def)

lemma phiInBand_onMouseMove: "phiInBand c \<Longrightarrow> phiInBand (onMouseMove e c)"
  using clamp_in_band by (simp add: phiInBand_def targetPhi_onMouseMove)

lemma targetPhi_touchDrag:
  "targetPhi (touchDrag t c)
     = max minPhi (min maxPhi (targetPhi c - (py t - py (previousTouch c)) * rotationSpeed * 1.5))"
  by (simp add: touchDrag_def Let_def)

lemma phiInBand_touchDrag: "phiInBand (touchDrag t c)"
  using clamp_in_band by (simp add: phiInBand_def targetPhi_touchDrag)

lemma targetPhi_pinchZoom: "targetPhi (pinchZoom t0 t1 c) = targetPhi c"
  by (simp add: pinchZoom_def Let_def)

lemma phiInBand_onTouchMove_old: "phiInBand c \<Longrightarrow> phiInBand (onTouchMove_old e c)"
  by (auto simp: onTouchMove_old_def phiInBand_touchDrag split: list.splits)

lemma phiInBand_pinchZoom: "phiInBand (pinchZoom t0 t1 c) = phiInBand c"
  by (simp add: phiInBand_def targetPhi_pinchZoom)

lemma phiInBand_onTouchMove_new: "phiInBand c \<Longrightarrow> phiInBand (onTouchMove_new e c)"
  by (auto simp: onTouchMove_new_def phiInBand_touchDrag phiInBand_pinchZoom
      split: list.splits)

lemma phiInBand_onKeyDown: "phiInBand c \<Longrightarrow> phiInBand (onKeyDown k c)"
  using minPhi_le_maxPhi by (auto simp: onKeyDown_def phiInBand_def Let_def)

lemma phiInBand_handleOrientation_old:
  "phiInBand c \<Longrightarrow> phiInBand (handleOrientation_old e c)"
  by (auto simp: handleOrientation_old_def Let_def split: option.splits)

lemma phiInBand_handleOrientation_new:
  "phiInBand c \<Longrightarrow> phiInBand (handleOrientation_new e c)"
  by (auto simp: handleOrientation_new_def Let_def split: option.splits)

lemma phiInBand_lookAtSkillPopup: "phiInBand (lookAtSkillPopup p c)"
  by (simp add: lookAtSkillPopup_def Let_def)

lemma targetPhi_updateCameraRotation [simp]:
  "targetPhi (updateCameraRotation c) = targetPhi c"
  by (simp add: updateCameraRotation_def Let_def)

lemma targetPhi_lookAt:
  "targetPhi (lookAt th ph i c)
     = (case ph of None \<Rightarrow> pi / 2 | Some v \<Rightarrow> if v = 0 then pi / 2 else v)"
  by (simp add: lookAt_def Let_def)

lemma targetTheta_lookAt: "targetTheta (lookAt th ph i c) = th"
  by (simp add: lookAt_def Let_def updateCameraRotation_def)







lemma updateCameraRotation_camera:
  "position (camera (updateCameraRotation c)) = position (camera c)"
  "lookTarget (camera (updateCameraRotation c))
     = Some (100 * sin (phi c) * sin (theta c), 100 * cos (phi c),
             - 100 * sin (phi c) * cos (theta c))"
  "theta (updateCameraRotation c) = theta c"
  "phi (updateCameraRotation c) = phi c"
  by (simp_all add: updateCameraRotation_def Let_def)

lemma aimed_updateCameraRotation: "aimed (updateCameraRotation c)"
  by (simp add: aimed_def updateCameraRotation_camera)

lemma frame_onMouseDown_old:
  "camera (onMouseDown_old e c) = camera c" "theta (onMouseDown_old e c) = theta c"
  "phi (onMouseDown_old e c) = phi c"
  by (simp_all add: onMouseDown_old_def)

lemma frame_onMouseDown_new:
  "camera (onMouseDown_new e c) = camera c" "theta (onMouseDown_new e c) = theta c"
  "phi (onMouseDown_new e c) = phi c"
  by (simp_all add: onMouseDown_new_def Let_def split: option.splits)

lemma frame_onMouseMove:
  "camera (onMouseMove e c) = camera c" "theta (onMouseMove e c) = theta c"
  "phi (onMouseMove e c) = phi c"
  by (simp_all add: onMouseMove_def Let_def)

lemma frame_onMouseUp_old:
  "camera (onMouseUp_old c) = camera c" "theta (onMouseUp_old c) = theta c"
  "phi (onMouseUp_old c) = phi c"
  by (simp_all add: onMouseUp_old_def)

lemma frame_onMouseUp_new:
  "camera (onMouseUp_new e c) = camera c" "theta (onMouseUp_new e c) = theta c"
  "phi (onMouseUp_new e c) = phi c"
  by (simp_all add: onMouseUp_new_def Let_def split: option.splits)

lemma frame_onMouseWheel:
  "camera (onMouseWheel d c) = camera c" "theta (onMouseWheel d c) = theta c"
  "phi (onMouseWheel d c) = phi c"
  by (simp_all add: onMouseWheel_def Let_def)

lemma frame_onTouchStart_old:
  "camera (onTouchStart_old e c) = camera c" "theta (onTouchStart_old e c) = theta c"
  "phi (onTouchStart_old e c) = phi c"
  by (simp_all add: onTouchStart_old_def split: list.splits)

lemma frame_onTouchStart_rest:
  "camera (onTouchStart_rest e c) = camera c" "theta (onTouchStart_rest e c) = theta c"
  "phi (onTouchStart_rest e c) = phi c"
  by (simp_all add: onTouchStart_rest_def split: list.splits)

lemma frame_onTouchStart_new:
  "camera (onTouchStart_new e c) = camera c" "theta (onTouchStart_new e c) = theta c"
  "phi (onTouchStart_new e c) = phi c"
  by (simp_all add: onTouchStart_new_def frame_onTouchStart_rest Let_def
      split: list.splits option.splits)

lemma frame_touchDrag:
  "camera (touchDrag t c) = camera c" "theta (touchDrag t c) = theta c"
  "phi (touchDrag t c) = phi c"
  by (simp_all add: touchDrag_def Let_def)

lemma frame_pinchZoom:
  "camera (pinchZoom t0 t1 c) = camera c" "theta (pinchZoom t0 t1 c) = theta c"
  "phi (pinchZoom t0 t1 c) = phi c"
  by (simp_all add: pinchZoom_def Let_def)

lemma frame_onTouchMove_old:
  "camera (onTouchMove_old e c) = camera c" "theta (onTouchMove_old e c) = theta c"
  "phi (onTouchMove_old e c) = phi c"
  by (simp_all add: onTouchMove_old_def frame_touchDrag split: list.splits)

lemma frame_onTouchMove_new:
  "camera (onTouchMove_new e c) = camera c" "theta (onTouchMove_new e c) = theta c"
  "phi (onTouchMove_new e c) = phi c"
  by (simp_all add: onTouchMove_new_def frame_touchDrag frame_pinchZoom split: list.splits)

lemma frame_onTouchEnd_new:
  "camera (onTouchEnd_new e c) = camera c" "theta (onTouchEnd_new e c) = theta c"
  "phi (onTouchEnd_new e c) = phi c"
  by (simp_all add: onTouchEnd_new_def Let_def split: option.splits list.splits)

lemma frame_onKeyDown:
  "camera (onKeyDown k c) = camera c" "theta (onKeyDown k c) = theta c"
  "phi (onKeyDown k c) = phi c"
  by (simp_all add: onKeyDown_def Let_def)

lemma frame_handleOrientation_old:
  "camera (handleOrientation_old e c) = camera c" "theta (handleOrientation_old e c) = theta c"
  "phi (handleOrientation_old e c) = phi c"
  by (simp_all add: handleOrientation_old_def calibrate_def Let_def split: option.splits)

lemma frame_handleOrientation_new:
  "camera (handleOrientation_new e c) = camera c" "theta (handleOrientation_new e c) = theta c"
  "phi (handleOrientation_new e c) = phi c"
  by (simp_all add: handleOrientation_new_def calibrate_def Let_def split: option.splits)

lemma frame_lookAtSkillPopup:
  "camera (lookAtSkillPopup p c) = camera c" "theta (lookAtSkillPopup p c) = theta c"
  "phi (lookAtSkillPopup p c) = phi c"
  by (simp_all add: lookAtSkillPopup_def Let_def)

lemma position_update_old: "position (camera (update_old c)) = position (camera c)"
  by (simp add: update_old_def updateCameraRotation_camera smooth_def Let_def)

lemma position_update_new: "position (camera (update_new c)) = position (camera c)"
  by (simp add: update_new_def updateCameraRotation_camera smooth_def Let_def)

lemma aimed_update_old: "aimed c \<Longrightarrow> aimed (update_old c)"
  by (simp add: update_old_def aimed_updateCameraRotation)

lemma aimed_update_new: "aimed c \<Longrightarrow> aimed (update_new c)"
  by (simp add: update_new_def aimed_updateCameraRotation Let_def)

lemma position_lookAt: "position (camera (lookAt th ph i c)) = position (camera c)"
  by (simp add: lookAt_def updateCameraRotation_camera Let_def)

lemma aimed_lookAt: "aimed c \<Longrightarrow> aimed (lookAt th ph i c)"
  by (simp add: lookAt_def aimed_updateCameraRotation Let_def) (simp add: aimed_def)

lemmas frames =
  frame_onMouseDown_old frame_onMouseDown_new frame_onMouseMove frame_onMouseUp_old
  frame_onMouseUp_new frame_onMouseWheel frame_onTouchStart_old frame_onTouchStart_new
  frame_onTouchMove_old frame_onTouchMove_new frame_onTouchEnd_new frame_onKeyDown
  frame_handleOrientation_old frame_handleOrientation_new frame_lookAtSkillPopup

lemma position_step_old: "position (camera (step_old c op)) = position (camera c)"
  by (cases op)
     (simp_all add: frames position_update_old position_lookAt onTouchEnd_old_def
        enableGyroscope_def toggleGyroscope_def lookAtFront_def lookAtLeft_def
        lookAtRight_def lookAtBack_def)

lemma position_step_new: "position (camera (step_new c op)) = position (camera c)"
  by (cases op)
     (simp_all add: frames position_update_new position_lookAt
        enableGyroscope_def toggleGyroscope_def lookAtFront_def lookAtLeft_def
        lookAtRight_def lookAtBack_def)

lemma aimed_step_old: "aimed c \<Longrightarrow> aimed (step_old c op)"
  by (cases op)
     (simp_all add: aimed_update_old aimed_lookAt lookAtFront_def lookAtLeft_def
        lookAtRight_def lookAtBack_def,
      simp_all add: aimed_def frames onTouchEnd_old_def
        enableGyroscope_def toggleGyroscope_def lookAtFront_def lookAtLeft_def
        lookAtRight_def lookAtBack_def)

lemma aimed_step_new: "aimed c \<Longrightarrow> aimed (step_new c op)"
  by (cases op)
     (simp_all add: aimed_update_new aimed_lookAt lookAtFront_def lookAtLeft_def
        lookAtRight_def lookAtBack_def,
      simp_all add: aimed_def frames
        enableGyroscope_def toggleGyroscope_def lookAtFront_def lookAtLeft_def
        lookAtRight_def lookAtBack_def)

lemma run_old_inv:
  "position (camera (controls_run_old c ops)) = position (camera c)
   \<and> (aimed c \<longrightarrow> aimed (controls_run_old c ops))"
  unfolding controls_run_old_def
  by (induction ops arbitrary: c) (simp_all add: position_step_old aimed_step_old)

lemma run_new_inv:
  "position (camera (controls_run_new c ops)) = position (camera c)
   \<and> (aimed c \<longrightarrow> aimed (controls_run_new c ops))"
  unfolding controls_run_new_def
  by (induction ops arbitrary: c) (simp_all add: position_step_new aimed_step_new)

lemma CameraControls_init:
  "position (camera (CameraControls cam)) = position cam" "aimed (CameraControls cam)"
  by (simp_all add: CameraControls_def aimed_updateCameraRotation updateCameraRotation_camera)

lemma createControls_fields:
  "enabled createControls = False" "isDragging createControls = False"
  "targetTheta createControls = 0" "targetPhi createControls = pi / 2"
  "previousMouse createControls = \<lparr>px = 0, py = 0\<rparr>"
  "gyroEnabled createControls = False" "gyroCalibrated createControls = False"
  by (simp_all add: createControls_def CameraControls_def updateCameraRotation_def Let_def)

subsection \<open>The claims about the camera rig\<close>

text \<open>
  Claim C5. A \<open>mousemove\<close> received while the controls are enabled and a drag is in
  progress lowers \<open>targetTheta\<close> by the horizontal pointer delta times 0.003 and sets
  \<open>targetPhi\<close> to the old value minus the vertical delta times 0.003, clamped into the
  band from \<open>pi / 6\<close> to \<open>5 * pi / 6\<close>; the pointer position is recorded for the next
  event. With the controls disabled or no drag in progress the handler changes nothing.
\<close>

theorem dragging_updates_target:
  "(enabled c \<and> isDragging c \<longrightarrow>
      targetTheta (onMouseMove e c)
        = targetTheta c - (clientX e - px (previousMouse c)) * 0.003
      \<and> targetPhi (onMouseMove e c)
        = max (pi / 6) (min (5 * pi / 6)
            (targetPhi c - (clientY e - py (previousMouse c)) * 0.003))
      \<and> pi / 6 \<le> targetPhi (onMouseMove e c)
      \<and> targetPhi (onMouseMove e c) \<le> 5 * pi / 6
      \<and> previousMouse (onMouseMove e c) = \<lparr>px = clientX e, py = clientY e\<rparr>)
   \<and> (\<not> enabled c \<or> \<not> isDragging c \<longrightarrow> onMouseMove e c = c)"
proof (intro conjI impI)
  assume a: "enabled c \<and> isDragging c"
  show "targetTheta (onMouseMove e c)
        = targetTheta c - (clientX e - px (previousMouse c)) * 0.003"
    using a by (simp add: targetTheta_onMouseMove rotationSpeed_def)
  have eq: "5 * pi / 6 = maxPhi" "pi / 6 = minPhi"
    by (simp_all add: minPhi_def maxPhi_def)
  show "targetPhi (onMouseMove e c)
        = max (pi / 6) (min (5 * pi / 6)
            (targetPhi c - (clientY e - py (previousMouse c)) * 0.003))"
    unfolding eq using a by (simp add: targetPhi_onMouseMove rotationSpeed_def)
  show "pi / 6 \<le> targetPhi (onMouseMove e c)"
    unfolding eq using a clamp_in_band by (simp add: targetPhi_onMouseMove)
  show "targetPhi (onMouseMove e c) \<le> 5 * pi / 6"
    unfolding eq using a clamp_in_band by (simp add: targetPhi_onMouseMove)
  show "previousMouse (onMouseMove e c) = \<lparr>px = clientX e, py = clientY e\<rparr>"
    using a by (simp add: onMouseMove_def Let_def)
next
  assume "\<not> enabled c \<or> \<not> isDragging c"
  then show "onMouseMove e c = c"
    by (auto simp: onMouseMove_def)
qed

theorem dragging_updates_target_witness:
  "enabled (createControls\<lparr>enabled := True, isDragging := True\<rparr>)
   \<and> isDragging (createControls\<lparr>enabled := True, isDragging := True\<rparr>)
   \<and> targetTheta (onMouseMove
         \<lparr>clientX = 10, clientY = 0, elementAtPoint = None, targetInteractive = False, now = 0\<rparr>
         (createControls\<lparr>enabled := True, isDragging := True\<rparr>)) = - 0.03
   \<and> \<not> enabled createControls
   \<and> onMouseMove
         \<lparr>clientX = 10, clientY = 0, elementAtPoint = None, targetInteractive = False, now = 0\<rparr>
         createControls = createControls"
proof -
  let ?e = "\<lparr>clientX = 10, clientY = 0, elementAtPoint = None, targetInteractive = False,
             now = 0\<rparr>"
  let ?c = "createControls\<lparr>enabled := True, isDragging := True\<rparr>"
  have h: "enabled ?c \<and> isDragging ?c" by simp
  have n: "\<not> enabled createControls" by (simp add: createControls_fields)
  from h dragging_updates_target [of ?c ?e]
  have "targetTheta (onMouseMove ?e ?c) = - 0.03"
    by (simp add: createControls_fields)
  moreover from n dragging_updates_target [of createControls ?e]
  have "onMouseMove ?e createControls = createControls" by blast
  ultimately show ?thesis using h n by blast
qed

text \<open>
  Claim C8. Every event handler that writes the pitch target keeps it inside the band
  from \<open>pi / 6\<close> to \<open>5 * pi / 6\<close>, given that it was inside before: \<open>onMouseMove\<close>,
  \<open>onTouchMove\<close>, \<open>onKeyDown\<close> and \<open>handleOrientation\<close> in both copies, and
  \<open>lookAtSkillPopup\<close>. The public method \<open>lookAt\<close> does not clamp: asked for the pitch
  \<open>pi\<close> or \<open>0.1\<close> it puts the target outside the band.
\<close>

theorem target_pitch_band:
  "(phiInBand c \<longleftrightarrow> pi / 6 \<le> targetPhi c \<and> targetPhi c \<le> pi * 5 / 6)
   \<and> (phiInBand c \<longrightarrow>
      phiInBand (onMouseMove me c)
      \<and> phiInBand (onTouchMove_old te c) \<and> phiInBand (onTouchMove_new te c)
      \<and> phiInBand (onKeyDown k c)
      \<and> phiInBand (handleOrientation_old oe c) \<and> phiInBand (handleOrientation_new oe c)
      \<and> phiInBand (lookAtSkillPopup p c))
   \<and> targetPhi (lookAt th (Some pi) i c) = pi
   \<and> \<not> phiInBand (lookAt th (Some pi) i c)
   \<and> \<not> phiInBand (lookAt th (Some 0.1) i c)"
proof (intro conjI impI)
  show "phiInBand c \<longleftrightarrow> pi / 6 \<le> targetPhi c \<and> targetPhi c \<le> pi * 5 / 6"
    by (simp add: phiInBand_def minPhi_def maxPhi_def)
  show "targetPhi (lookAt th (Some pi) i c) = pi"
    by (simp add: targetPhi_lookAt)
  show "\<not> phiInBand (lookAt th (Some pi) i c)"
    using pi_gt_zero by (simp add: phiInBand_def targetPhi_lookAt maxPhi_def)
  show "\<not> phiInBand (lookAt th (Some 0.1) i c)"
    using pi_ge_two by (simp add: phiInBand_def targetPhi_lookAt minPhi_def)
qed (simp_all add: phiInBand_onMouseMove phiInBand_onTouchMove_old phiInBand_onTouchMove_new
      phiInBand_onKeyDown phiInBand_handleOrientation_old phiInBand_handleOrientation_new
      phiInBand_lookAtSkillPopup)

theorem target_pitch_band_witness:
  "phiInBand createControls
   \<and> phiInBand (onKeyDown ''ArrowUp'' createControls)
   \<and> phiInBand (lookAtSkillPopup ''bottom'' createControls)
   \<and> \<not> phiInBand (lookAt 0 (Some pi) False createControls)"
proof -
  have h: "phiInBand createControls"
    using pi_gt_zero by (simp add: phiInBand_def createControls_fields minPhi_def maxPhi_def)
  from h target_pitch_band [of createControls _ _ "''ArrowUp''" _ "''bottom''" 0 False]
  show ?thesis by blast
qed

text \<open>
  Claim C9. \<open>lookAt(theta, 0)\<close> sets the pitch target to \<open>pi / 2\<close> and behaves in every
  respect like the call that leaves \<open>phi\<close> out; whatever its arguments, \<open>lookAt\<close> never
  leaves the pitch target at exactly zero.
\<close>

theorem lookAt_falsy_pitch:
  "targetPhi (lookAt th (Some 0) i c) = pi / 2
   \<and> targetTheta (lookAt th (Some 0) i c) = th
   \<and> lookAt th (Some 0) i c = lookAt th None i c
   \<and> targetPhi (lookAt th ph i c) \<noteq> 0"
proof (intro conjI)
  show "targetPhi (lookAt th (Some 0) i c) = pi / 2"
    by (simp add: targetPhi_lookAt)
  show "targetTheta (lookAt th (Some 0) i c) = th"
    by (rule targetTheta_lookAt)
  show "lookAt th (Some 0) i c = lookAt th None i c"
    by (simp add: lookAt_def)
  show "targetPhi (lookAt th ph i c) \<noteq> 0"
    using pi_gt_zero by (simp add: targetPhi_lookAt split: option.splits)
qed




text \<open>
  Claim C6. The scene puts the camera at the origin and no operation of the controls
  moves it: each single operation of either copy leaves \<open>camera.position\<close> as it was, so
  after any sequence of operations the position is still the origin.
  \<open>updateCameraRotation\<close> points the camera at the point
  \<open>(100 sin phi sin theta, 100 cos phi, - 100 sin phi cos theta)\<close>, which depends on the
  two angles only, and in every state reached from the constructor the camera looks at
  the point given by the current \<open>theta\<close> and \<open>phi\<close>.
\<close>

theorem camera_fixed_at_origin:
  "position createCamera = (0, 0, 0)
   \<and> position (camera (step_old c op)) = position (camera c)
   \<and> position (camera (step_new c op)) = position (camera c)
   \<and> position (camera (controls_run_old createControls ops)) = (0, 0, 0)
   \<and> position (camera (controls_run_new createControls ops)) = (0, 0, 0)
   \<and> lookTarget (camera (updateCameraRotation c))
       = Some (100 * sin (phi c) * sin (theta c), 100 * cos (phi c),
               - 100 * sin (phi c) * cos (theta c))
   \<and> (aimed c \<longleftrightarrow>
        lookTarget (camera c)
          = Some (100 * sin (phi c) * sin (theta c), 100 * cos (phi c),
                  - 100 * sin (phi c) * cos (theta c)))
   \<and> aimed (controls_run_old createControls ops)
   \<and> aimed (controls_run_new createControls ops)"
proof -
  have p: "position (camera createControls) = (0, 0, 0)"
    by (simp add: createControls_def CameraControls_init createCamera_def)
  have a: "aimed createControls"
    by (simp add: createControls_def CameraControls_init)
  have d: "aimed c \<longleftrightarrow>
        lookTarget (camera c)
          = Some (100 * sin (phi c) * sin (theta c), 100 * cos (phi c),
                  - 100 * sin (phi c) * cos (theta c))"
    by (simp add: aimed_def)
  show ?thesis
    using p a d run_old_inv [of createControls ops] run_new_inv [of createControls ops]
    by (simp add: position_step_old position_step_new updateCameraRotation_camera
        createCamera_def)
qed



end
